theory Spec2Isabelle
  imports Complex_Main
begin

text \<open>
  The route handlers of the tutor-booking server (\<open>index.js\<close>) over a store of three
  collections, tutors, bookings and users. A handler is a function of the request's
  environment, the store and the request, returning the response and the store it leaves.
\<close>

section \<open>JavaScript values carried by request bodies and documents\<close>

text \<open>
  A JavaScript number: \<open>NaN\<close>, the two infinities (\<open>Infinity True\<close> is the positive one)
  or a finite value. The handlers never compute with prices, so a finite number is kept
  as the rational it denotes.
\<close>

datatype jsnum = NaN | Infinity bool | Finite rat

text \<open>
  The value of a field of \<open>req.body\<close> after \<open>express.json()\<close>: a JSON scalar, or
  \<open>Undefined\<close> when the key is not in the body. Arrays and nested objects in these fields
  are outside the model.
\<close>

datatype jsval = Undefined | Null | Boolean bool | Number jsnum | String string

text \<open>\<open>ToBoolean\<close>: what \<open>!x\<close> and \<open>x || y\<close> test.\<close>

fun truthy :: "jsval \<Rightarrow> bool" where
  "truthy Undefined = False"
| "truthy Null = False"
| "truthy (Boolean b) = b"
| "truthy (Number NaN) = False"
| "truthy (Number (Infinity s)) = True"
| "truthy (Number (Finite q)) = (q \<noteq> 0)"
| "truthy (String s) = (s \<noteq> [])"

text \<open>\<open>x == null\<close> holds for \<open>null\<close> and \<open>undefined\<close> only.\<close>

fun eq_null :: "jsval \<Rightarrow> bool" where
  "eq_null Undefined = True"
| "eq_null Null = True"
| "eq_null _ = False"

text \<open>\<open>x || y\<close>\<close>

definition or_else :: "jsval \<Rightarrow> jsval \<Rightarrow> jsval" where
  "or_else x y = (if truthy x then x else y)"

text \<open>
  \<open>StringToNumber\<close> of ECMAScript, applied by \<open>Number(x)\<close> to a string: a string that
  is no numeric literal converts to \<open>NaN\<close>. A non-empty string of ASCII letters is no
  numeric literal, \<open>Infinity\<close> excepted (a sign, a digit, a dot or white space would be
  needed), so it converts to \<open>NaN\<close>; what any other string converts to is left to the
  runtime, the parameter \<open>rt\<close>.
\<close>

definition isLetter :: "char \<Rightarrow> bool" where
  "isLetter c =
     (let n = (of_char c :: nat)
      in (65 \<le> n \<and> n \<le> 90) \<or> (97 \<le> n \<and> n \<le> 122))"

definition StringToNumber :: "(string \<Rightarrow> jsnum) \<Rightarrow> string \<Rightarrow> jsnum" where
  "StringToNumber rt s =
     (if s \<noteq> [] \<and> list_all isLetter s \<and> s \<noteq> ''Infinity'' then NaN else rt s)"

text \<open>\<open>Number(x)\<close>, with the conversion of strings \<open>stn\<close>.\<close>

fun ToNumber :: "(string \<Rightarrow> jsnum) \<Rightarrow> jsval \<Rightarrow> jsnum" where
  "ToNumber stn Undefined = NaN"
| "ToNumber stn Null = Finite 0"
| "ToNumber stn (Boolean b) = (if b then Finite 1 else Finite 0)"
| "ToNumber stn (Number n) = n"
| "ToNumber stn (String s) = stn s"

text \<open>A value that is a number: \<open>typeof x === 'number' && !Number.isNaN(x)\<close>.\<close>

fun is_numeric :: "jsval \<Rightarrow> bool" where
  "is_numeric (Number n) = (n \<noteq> NaN)"
| "is_numeric _ = False"

text \<open>
  \<open>String.prototype.toLowerCase\<close>. A string is the list of the bytes of its UTF-8
  encoding. On ASCII text the letters \<open>A\<close> to \<open>Z\<close> move to \<open>a\<close> to \<open>z\<close> and every other
  character stays; a string with a character beyond ASCII is lowered by the runtime's
  Unicode case mapping, the parameter \<open>rt\<close>.
\<close>

definition is_ascii :: "char \<Rightarrow> bool" where
  "is_ascii c = ((of_char c :: nat) < 128)"

definition lower_char :: "char \<Rightarrow> char" where
  "lower_char c =
     (case map_of (zip ''ABCDEFGHIJKLMNOPQRSTUVWXYZ'' ''abcdefghijklmnopqrstuvwxyz'') c of
        None \<Rightarrow> c
      | Some l \<Rightarrow> l)"

definition toLowerCase :: "(string \<Rightarrow> string) \<Rightarrow> string \<Rightarrow> string" where
  "toLowerCase rt s = (if list_all is_ascii s then map lower_char s else rt s)"

text \<open>What a handler's \<open>try\<close> block can throw.\<close>

datatype error = StorageError | DuplicateKey | TypeError

text \<open>
  \<open>x.toLowerCase()\<close> on a value of \<open>req.body\<close>: a string has the method, on any other
  value the call throws a \<open>TypeError\<close>.
\<close>

fun call_toLowerCase :: "(string \<Rightarrow> string) \<Rightarrow> jsval \<Rightarrow> error + string" where
  "call_toLowerCase rt (String s) = Inr (toLowerCase rt s)"
| "call_toLowerCase rt _ = Inl TypeError"

section \<open>Store identifiers\<close>

text \<open>The twelve bytes of an \<open>ObjectId\<close>.\<close>

datatype objectId = ObjectId "nat list"

definition isHex :: "char \<Rightarrow> bool" where
  "isHex c =
     (let n = (of_char c :: nat)
      in (48 \<le> n \<and> n \<le> 57) \<or> (97 \<le> n \<and> n \<le> 102) \<or> (65 \<le> n \<and> n \<le> 70))"

text \<open>
  Modelled from the spec: \<open>ObjectId.isValid\<close> belongs to the \<open>mongodb\<close> driver, which is
  not part of the sources. The spec says: identifiers are store-native 24-character hex
  identifiers; any other string is rejected.
\<close>

definition isValid :: "string \<Rightarrow> bool" where
  "isValid s = (length s = 24 \<and> list_all isHex s)"

definition hexDigit :: "char \<Rightarrow> nat" where
  "hexDigit c =
     (let n = (of_char c :: nat)
      in if 48 \<le> n \<and> n \<le> 57 then n - 48
         else if 97 \<le> n \<and> n \<le> 102 then n - 87
         else n - 55)"

fun fromHex :: "string \<Rightarrow> nat list" where
  "fromHex (a # b # cs) = (16 * hexDigit a + hexDigit b) # fromHex cs"
| "fromHex _ = []"

text \<open>
  \<open>new ObjectId(id)\<close>; every handler calls it only after \<open>ObjectId.isValid(id)\<close>
  succeeded.
\<close>

definition new_ObjectId :: "string \<Rightarrow> objectId" where
  "new_ObjectId s = ObjectId (fromHex s)"

section \<open>Documents and collections\<close>

text \<open>
  The documents the handlers of \<open>index.js\<close> write. \<open>oid\<close> is the field \<open>_id\<close>,
  \<open>createdAt\<close> the value of \<open>new Date()\<close> in milliseconds, \<open>tutorImage\<close> the field
  \<open>image\<close> of a tutor. \<open>POST /tutors\<close>, \<open>POST /bookings\<close> and \<open>POST /users\<close> write every
  field of their document, so no field is ever absent; \<open>review\<close> is the integer counter
  and \<open>reviewed\<close> the boolean flag of the data model.
\<close>

record document =
  oid :: objectId
  createdAt :: nat

record tutor = document +
  tutorName :: jsval
  language :: jsval
  price :: jsval
  description :: jsval
  tutorImage :: jsval
  review :: int

record booking = document +
  tutorId :: objectId
  userEmail :: jsval
  bookedAt :: jsval
  reviewed :: bool

record user = document +
  name :: jsval
  email :: jsval
  role :: string

text \<open>
  The database \<open>tutorsDB\<close>: three collections in insertion order, and whether the unique
  index on \<open>users.email\<close> exists (\<open>createIndex\<close> is fired at start-up and its failure
  is swallowed).
\<close>

record db =
  tutorCollection :: "tutor list"
  bookingCollection :: "booking list"
  userCollection :: "user list"
  emailIndex :: bool

subsection \<open>Collection primitives\<close>

text \<open>\<open>findOne(filter)\<close>: the first matching document, or \<open>null\<close>.\<close>

definition findOne :: "('a \<Rightarrow> bool) \<Rightarrow> 'a list \<Rightarrow> 'a option" where
  "findOne p xs = find p xs"

text \<open>
  \<open>updateOne(filter, update)\<close>: the first matching document is updated. The result is
  the collection, \<open>matchedCount\<close> and \<open>modifiedCount\<close> (a document left equal by the
  update is matched but not modified).
\<close>

fun updateOne :: "('a \<Rightarrow> bool) \<Rightarrow> ('a \<Rightarrow> 'a) \<Rightarrow> 'a list \<Rightarrow> 'a list \<times> nat \<times> nat" where
  "updateOne p f [] = ([], 0, 0)"
| "updateOne p f (x # xs) =
     (if p x then (f x # xs, 1, if f x = x then 0 else 1)
      else (case updateOne p f xs of (ys, m, n) \<Rightarrow> (x # ys, m, n)))"

text \<open>\<open>deleteOne(filter)\<close>: the first matching document is removed; the result is the
  collection and \<open>deletedCount\<close>.\<close>

fun deleteOne :: "('a \<Rightarrow> bool) \<Rightarrow> 'a list \<Rightarrow> 'a list \<times> nat" where
  "deleteOne p [] = ([], 0)"
| "deleteOne p (x # xs) =
     (if p x then (xs, 1)
      else (case deleteOne p xs of (ys, n) \<Rightarrow> (x # ys, n)))"

text \<open>
  \<open>insertOne(doc)\<close>: the document is appended; the store refuses an \<open>_id\<close> that is
  already in the collection.
\<close>

definition insertOne :: "('a \<Rightarrow> objectId) \<Rightarrow> 'a \<Rightarrow> 'a list \<Rightarrow> error + 'a list" where
  "insertOne key d xs =
     (if list_ex (\<lambda>x. key x = key d) xs then Inl DuplicateKey else Inr (xs @ [d]))"


section \<open>Requests, responses, environment\<close>

text \<open>
  What a request takes from outside the handler: the clock, the \<open>_id\<close> the driver
  generates for an inserted document, which of the awaited storage calls throw
  (\<open>fails k\<close>: the call number \<open>k\<close> of this request, counted from 0, throws, for a lost
  connection or an operation the store rejects, and has no effect on the store), and the
  two functions of the runtime the model leaves open: the number a string converts to
  where \<open>StringToNumber\<close> does not fix it, and the lower-casing of text beyond ASCII.
\<close>

record env =
  now :: nat
  newId :: objectId
  fails :: "nat \<Rightarrow> bool"
  numericValue :: "string \<Rightarrow> jsnum"
  lowerUnicode :: "string \<Rightarrow> string"

text \<open>The document \<open>GET /bookings/:email\<close> projects for each booking joined with its tutor.\<close>

record bookingView =
  v_id :: objectId
  v_tutorId :: objectId
  v_userEmail :: jsval
  v_bookedAt :: jsval
  v_reviewed :: bool
  v_tutorName :: jsval
  v_language :: jsval
  v_price :: jsval
  v_image :: jsval

text \<open>
  The JSON bodies the handlers send: \<open>{success: false, error}\<close>,
  \<open>{success: false, message}\<close>, \<open>{success: true, message, insertedId}\<close>,
  \<open>{success: true, message}\<close>, \<open>{success: true, deletedCount}\<close>,
  \<open>{success: true, modifiedCount}\<close>, a tutor document, a list of joined bookings.
\<close>

datatype body =
    Failure_error string
  | Failure_message string
  | Success_insertedId string objectId
  | Success_message string
  | Success_deletedCount nat
  | Success_modifiedCount nat
  | TutorDoc tutor
  | BookingDocs "bookingView list"

record response =
  status :: nat
  body :: body

text \<open>\<open>res.status(c).send(b)\<close>; \<open>res.send(b)\<close> alone answers 200.\<close>

definition send :: "nat \<Rightarrow> body \<Rightarrow> response" where
  "send c b = \<lparr>status = c, body = b\<rparr>"

text \<open>
  \<open>await call\<close> inside a \<open>try\<close> block: the call throws when the environment says so,
  and then leaves the store as it was.
\<close>

definition await :: "bool \<Rightarrow> error + 'a \<Rightarrow> error + 'a" where
  "await failed r = (if failed then Inl StorageError else r)"

section \<open>Tutor routes\<close>

text \<open>The fields \<open>POST /tutors\<close> destructures from \<open>req.body\<close>.\<close>

record tutorBody =
  b_tutorName :: jsval
  b_language :: jsval
  b_price :: jsval
  b_description :: jsval
  b_image :: jsval

text \<open>\<open>app.post('/tutors')\<close>, index.js lines 55 to 77.\<close>

definition post_tutors :: "env \<Rightarrow> db \<Rightarrow> tutorBody \<Rightarrow> response \<times> db" where
  "post_tutors e d b =
     (if \<not> truthy (b_tutorName b) \<or> \<not> truthy (b_language b) \<or> eq_null (b_price b)
      then (send 400 (Failure_error ''Missing required fields''), d)
      else
        let newTutor =
          \<lparr>oid = newId e, createdAt = now e,
           tutorName = b_tutorName b,
           language = b_language b,
           price = Number (ToNumber (StringToNumber (numericValue e)) (b_price b)),
           description = or_else (b_description b) (String []),
           tutorImage = or_else (b_image b) (String []),
           review = 0\<rparr>
        in case await (fails e 0) (insertOne oid newTutor (tutorCollection d)) of
             Inl err \<Rightarrow> (send 500 (Failure_error ''Failed to add tutor''), d)
           | Inr ts \<Rightarrow>
               (send 201 (Success_insertedId ''Tutor added'' (oid newTutor)),
                d\<lparr>tutorCollection := ts\<rparr>))"

text \<open>\<open>app.get('/tutors/:id')\<close>, index.js lines 89 to 100.\<close>

definition get_tutors_id :: "env \<Rightarrow> db \<Rightarrow> string \<Rightarrow> response" where
  "get_tutors_id e d id' =
     (if \<not> isValid id' then send 400 (Failure_error ''Invalid ID format'')
      else case await (fails e 0)
                  (Inr (findOne (\<lambda>t. oid t = new_ObjectId id') (tutorCollection d))) of
             Inl err \<Rightarrow> send 500 (Failure_error ''Failed to fetch tutor'')
           | Inr None \<Rightarrow> send 404 (Failure_error ''Tutor not found'')
           | Inr (Some tutor) \<Rightarrow> send 200 (TutorDoc tutor))"

text \<open>\<open>app.delete('/tutors/:id')\<close>, index.js lines 126 to 137.\<close>

definition delete_tutors_id :: "env \<Rightarrow> db \<Rightarrow> string \<Rightarrow> response \<times> db" where
  "delete_tutors_id e d id' =
     (if \<not> isValid id' then (send 400 (Failure_error ''Invalid ID format''), d)
      else case await (fails e 0)
                  (Inr (deleteOne (\<lambda>t. oid t = new_ObjectId id') (tutorCollection d))) of
             Inl err \<Rightarrow> (send 500 (Failure_error ''Failed to delete tutor''), d)
           | Inr (ts, deletedCount) \<Rightarrow>
               (send 200 (Success_deletedCount deletedCount), d\<lparr>tutorCollection := ts\<rparr>))"

text \<open>
  The older \<open>app.delete('/tutors/:id')\<close> of the second source file (lines 89 to 100),
  which answers 404 when nothing was deleted.
\<close>

definition delete_tutors_id_old :: "env \<Rightarrow> db \<Rightarrow> string \<Rightarrow> response \<times> db" where
  "delete_tutors_id_old e d id' =
     (if \<not> isValid id' then (send 400 (Failure_error ''Invalid ID format''), d)
      else case await (fails e 0)
                  (Inr (deleteOne (\<lambda>t. oid t = new_ObjectId id') (tutorCollection d))) of
             Inl err \<Rightarrow> (send 500 (Failure_error ''Failed to delete tutor''), d)
           | Inr (ts, deletedCount) \<Rightarrow>
               if deletedCount = 0
               then (send 404 (Failure_message ''Tutor not found''), d\<lparr>tutorCollection := ts\<rparr>)
               else (send 200 (Success_message ''Tutor deleted''), d\<lparr>tutorCollection := ts\<rparr>))"

section \<open>Booking routes\<close>

subsection \<open>The aggregation pipeline of \<open>GET /bookings/:email\<close>\<close>

text \<open>\<open>{ $match: { userEmail: email } }\<close>\<close>

definition match_stage :: "string \<Rightarrow> booking list \<Rightarrow> booking list" where
  "match_stage em bs = filter (\<lambda>b. userEmail b = String em) bs"

text \<open>\<open>{ $lookup: { from: "tutors", localField: "tutorId", foreignField: "_id", as: "tutor" } }\<close>:
  each booking gets the list of the tutors whose \<open>_id\<close> is its \<open>tutorId\<close>.\<close>

definition lookup_stage :: "tutor list \<Rightarrow> booking list \<Rightarrow> (booking \<times> tutor list) list" where
  "lookup_stage ts bs = map (\<lambda>b. (b, filter (\<lambda>t. oid t = tutorId b) ts)) bs"

text \<open>\<open>{ $unwind: "$tutor" }\<close>: one document per element of the joined list, none for
  an empty list.\<close>

definition unwind_stage :: "(booking \<times> tutor list) list \<Rightarrow> (booking \<times> tutor) list" where
  "unwind_stage xs = concat (map (\<lambda>(b, ts). map (\<lambda>t. (b, t)) ts) xs)"

text \<open>The \<open>$project\<close> stage.\<close>

definition project :: "booking \<Rightarrow> tutor \<Rightarrow> bookingView" where
  "project b t =
     \<lparr>v_id = oid b, v_tutorId = tutorId b, v_userEmail = userEmail b,
      v_bookedAt = bookedAt b, v_reviewed = reviewed b,
      v_tutorName = tutorName t, v_language = language t, v_price = price t,
      v_image = tutorImage t\<rparr>"

definition project_stage :: "(booking \<times> tutor) list \<Rightarrow> bookingView list" where
  "project_stage xs = map (\<lambda>(b, t). project b t) xs"

definition aggregate :: "string \<Rightarrow> db \<Rightarrow> bookingView list" where
  "aggregate em d =
     project_stage (unwind_stage (lookup_stage (tutorCollection d)
       (match_stage em (bookingCollection d))))"

text \<open>\<open>app.get('/bookings/:email')\<close>, index.js lines 163 to 182.\<close>

definition get_bookings_email :: "env \<Rightarrow> db \<Rightarrow> string \<Rightarrow> response" where
  "get_bookings_email e d em =
     (case await (fails e 0) (Inr (aggregate em d)) of
        Inl err \<Rightarrow> send 500 (Failure_error ''Failed to fetch bookings'')
      | Inr bookings \<Rightarrow> send 200 (BookingDocs bookings))"

subsection \<open>The review workflow\<close>

text \<open>\<open>{ $set: { reviewed: true } }\<close> and \<open>{ $inc: { review: 1 } }\<close>\<close>

definition set_reviewed :: "booking \<Rightarrow> booking" where
  "set_reviewed b = b\<lparr>reviewed := True\<rparr>"

definition inc_review :: "tutor \<Rightarrow> tutor" where
  "inc_review t = t\<lparr>review := review t + 1\<rparr>"

text \<open>
  \<open>app.patch('/bookings/reviewed/:id')\<close>, index.js lines 184 to 200. Storage call 0 is
  the \<open>findOne\<close>, call 1 the update of the booking, call 2 the update of the tutor.
\<close>

definition patch_bookings_reviewed_id :: "env \<Rightarrow> db \<Rightarrow> string \<Rightarrow> response \<times> db" where
  "patch_bookings_reviewed_id e d id' =
     (if \<not> isValid id' then (send 400 (Failure_error ''Invalid ID format''), d)
      else case await (fails e 0)
                  (Inr (findOne (\<lambda>b. oid b = new_ObjectId id') (bookingCollection d))) of
        Inl err \<Rightarrow> (send 500 (Failure_error ''Failed to update review''), d)
      | Inr None \<Rightarrow> (send 404 (Failure_message ''Booking not found''), d)
      | Inr (Some booking) \<Rightarrow>
          (if reviewed booking then (send 400 (Failure_message ''Already reviewed''), d)
           else
             (case await (fails e 1)
                     (Inr (updateOne (\<lambda>b. oid b = new_ObjectId id') set_reviewed
                             (bookingCollection d))) of
                Inl err \<Rightarrow> (send 500 (Failure_error ''Failed to update review''), d)
              | Inr (bs, m1, n1) \<Rightarrow>
                  (let d1 = d\<lparr>bookingCollection := bs\<rparr>
                   in (case await (fails e 2)
                              (Inr (updateOne (\<lambda>t. oid t = tutorId booking) inc_review
                                      (tutorCollection d1))) of
                         Inl err \<Rightarrow> (send 500 (Failure_error ''Failed to update review''), d1)
                       | Inr (ts, m2, n2) \<Rightarrow>
                           (send 200
                              (Success_message ''Booking reviewed & tutor rating updated''),
                            d1\<lparr>tutorCollection := ts\<rparr>))))))"

section \<open>User routes\<close>

text \<open>The fields \<open>POST /users\<close> destructures from \<open>req.body\<close>.\<close>

record userBody =
  b_name :: jsval
  b_email :: jsval
  b_role :: jsval


text \<open>\<open>{ $set: { role: r } }\<close>\<close>

definition set_role :: "string \<Rightarrow> user \<Rightarrow> user" where
  "set_role r u = u\<lparr>role := r\<rparr>"

text \<open>
  \<open>app.patch('/users/:id')\<close>, index.js lines 241 to 254; \<open>rl\<close> is the field \<open>role\<close>
  of \<open>req.body\<close>.
\<close>

definition patch_users_id :: "env \<Rightarrow> db \<Rightarrow> string \<Rightarrow> jsval \<Rightarrow> response \<times> db" where
  "patch_users_id e d id' rl =
     (if \<not> isValid id' then (send 400 (Failure_error ''Invalid ID format''), d)
      else if \<not> truthy rl then (send 400 (Failure_error ''Role is required''), d)
      else case call_toLowerCase (lowerUnicode e) rl of
        Inl err \<Rightarrow> (send 500 (Failure_error ''Failed to update role''), d)
      | Inr r \<Rightarrow>
          (case await (fails e 0)
                  (Inr (updateOne (\<lambda>u. oid u = new_ObjectId id') (set_role r)
                          (userCollection d))) of
             Inl err \<Rightarrow> (send 500 (Failure_error ''Failed to update role''), d)
           | Inr (us, matchedCount, modifiedCount) \<Rightarrow>
               (send 200 (Success_modifiedCount modifiedCount), d\<lparr>userCollection := us\<rparr>)))"

section \<open>The join of \<open>GET /bookings/:email\<close> as the specification words it\<close>

text \<open>
  Follows the specification, not the code. A returned record is the booking's own record
  enriched with the name, language, price and image of its tutor.
\<close>

definition enriched_spec :: "booking \<Rightarrow> tutor \<Rightarrow> bookingView" where
  "enriched_spec b t =
     \<lparr>v_id = oid b, v_tutorId = tutorId b, v_userEmail = userEmail b,
      v_bookedAt = bookedAt b, v_reviewed = reviewed b,
      v_tutorName = tutorName t, v_language = language t, v_price = price t,
      v_image = tutorImage t\<rparr>"

text \<open>
  Follows the specification, not the code: all bookings of the email, each enriched with
  its tutor; a booking whose \<open>tutorId\<close> resolves to no tutor is dropped.
\<close>

definition bookings_of_email_spec :: "string \<Rightarrow> db \<Rightarrow> bookingView list" where
  "bookings_of_email_spec em d =
     concat (map (\<lambda>b. case findOne (\<lambda>t. oid t = tutorId b) (tutorCollection d) of
                         None \<Rightarrow> []
                       | Some t \<Rightarrow> [enriched_spec b t])
                 (filter (\<lambda>b. userEmail b = String em) (bookingCollection d)))"

text \<open>A joined tutor field is absent when it is \<open>undefined\<close>.\<close>

definition tutor_fields_present :: "tutor \<Rightarrow> bool" where
  "tutor_fields_present t =
     (tutorName t \<noteq> Undefined \<and> language t \<noteq> Undefined \<and> price t \<noteq> Undefined
      \<and> tutorImage t \<noteq> Undefined)"

definition joined_fields_present :: "bookingView \<Rightarrow> bool" where
  "joined_fields_present v =
     (v_tutorName v \<noteq> Undefined \<and> v_language v \<noteq> Undefined \<and> v_price v \<noteq> Undefined
      \<and> v_image v \<noteq> Undefined)"

section \<open>A small store used to exercise the theorems\<close>

definition ex_tutor_id :: string where
  "ex_tutor_id = ''64a1b2c3d4e5f60718293a4b''"

definition ex_booking_id :: string where
  "ex_booking_id = ''507f1f77bcf86cd799439011''"

definition ex_orphan_id :: string where
  "ex_orphan_id = ''507F1F77BCF86CD799439012''"

definition ex_user_id :: string where
  "ex_user_id = ''5f8d0d55b54764421b7156c3''"

definition ex_absent_id :: string where
  "ex_absent_id = ''000000000000000000000000''"

definition ex_tutor :: tutor where
  "ex_tutor =
     \<lparr>oid = new_ObjectId ex_tutor_id, createdAt = 1700000000000,
      tutorName = String ''Ana'', language = String ''Spanish'',
      price = Number (Finite 20), description = String [], tutorImage = String [],
      review = 4\<rparr>"

definition ex_booking :: booking where
  "ex_booking =
     \<lparr>oid = new_ObjectId ex_booking_id, createdAt = 1700000000500,
      tutorId = new_ObjectId ex_tutor_id, userEmail = String ''li@example.org'',
      bookedAt = String ''2025-03-01'', reviewed = False\<rparr>"

text \<open>A booking whose tutor is not in the store.\<close>

definition ex_orphan :: booking where
  "ex_orphan =
     \<lparr>oid = new_ObjectId ex_orphan_id, createdAt = 1700000000900,
      tutorId = new_ObjectId ex_absent_id, userEmail = String ''li@example.org'',
      bookedAt = String ''2025-04-01'', reviewed = False\<rparr>"

definition ex_user :: user where
  "ex_user =
     \<lparr>oid = new_ObjectId ex_user_id, createdAt = 1700000000100,
      name = String ''Li'', email = String ''li@example.org'', role = ''user''\<rparr>"

definition ex_db :: db where
  "ex_db =
     \<lparr>tutorCollection = [ex_tutor], bookingCollection = [ex_booking, ex_orphan],
      userCollection = [ex_user], emailIndex = True\<rparr>"

text \<open>
  An environment in which no storage call throws, and one in which the third does. No
  example reaches the two runtime functions, so they are left trivial.
\<close>

definition ex_env :: env where
  "ex_env =
     \<lparr>now = 1700000001000, newId = ObjectId [101, 0, 0, 0, 0, 0, 0, 0, 0, 0, 0, 7],
      fails = (\<lambda>k. False), numericValue = (\<lambda>s. Finite 0), lowerUnicode = (\<lambda>s. s)\<rparr>"

definition ex_env_third_fails :: env where
  "ex_env_third_fails = ex_env\<lparr>fails := (\<lambda>k. k = 2)\<rparr>"

text \<open>Request bodies: a complete tutor, a tutor without price.\<close>

definition ex_tutorBody :: tutorBody where
  "ex_tutorBody =
     \<lparr>b_tutorName = String ''Bo'', b_language = String ''French'', b_price = Number (Finite 15),
      b_description = Undefined, b_image = Undefined\<rparr>"

definition ex_tutorBody_no_price :: tutorBody where
  "ex_tutorBody_no_price = ex_tutorBody\<lparr>b_price := Undefined\<rparr>"

text \<open>The body \<open>{tutorName: "Bo", language: "French", price: "abc"}\<close>.\<close>

definition ex_tutorBody_abc :: tutorBody where
  "ex_tutorBody_abc = ex_tutorBody\<lparr>b_price := String ''abc''\<rparr>"

text \<open>Request bodies: a new user with a role, the same email again, and a new user with
  the role \<open>123\<close>.\<close>

definition ex_userBody :: userBody where
  "ex_userBody =
     \<lparr>b_name = String ''Kim'', b_email = String ''kim@example.org'', b_role = String ''Admin''\<rparr>"



section \<open>Facts about the collection primitives\<close>

lemma findOne_None_iff: "findOne p xs = None \<longleftrightarrow> (\<forall>x\<in>set xs. \<not> p x)"
  by (auto simp: findOne_def find_None_iff)

lemma findOne_Some_mem: "findOne p xs = Some x \<Longrightarrow> x \<in> set xs \<and> p x"
  unfolding findOne_def by (induction xs) (auto split: if_splits)

lemma findOne_Some_iff_ex: "(\<exists>x. findOne p xs = Some x) \<longleftrightarrow> (\<exists>x\<in>set xs. p x)"
  using findOne_None_iff [of p xs] by (cases "findOne p xs") auto

lemma updateOne_no_match: "findOne p xs = None \<Longrightarrow> updateOne p f xs = (xs, 0, 0)"
  unfolding findOne_def by (induction xs) (auto split: if_splits)

text \<open>
  After an update that keeps the key, a lookup by key sees the updated document under the
  updated key and every other document as before.
\<close>

lemma findOne_updateOne:
  assumes "\<And>x. key (f x) = key x"
  shows "findOne (\<lambda>x. key x = j) (fst (updateOne (\<lambda>x. key x = k) f xs)) =
         (if j = k then map_option f (findOne (\<lambda>x. key x = k) xs)
          else findOne (\<lambda>x. key x = j) xs)"
  unfolding findOne_def using assms
  by (induction xs) (auto split: prod.splits)

lemma map_key_updateOne:
  assumes "\<And>x. key (f x) = key x"
  shows "map key (fst (updateOne p f xs)) = map key xs"
  using assms by (induction xs) (auto split: prod.splits)

lemma deleteOne_no_match: "findOne p xs = None \<Longrightarrow> deleteOne p xs = (xs, 0)"
  unfolding findOne_def by (induction xs) (auto split: if_splits)

lemma deleteOne_match: "findOne p xs = Some x \<Longrightarrow> snd (deleteOne p xs) = 1"
  unfolding findOne_def by (induction xs) (auto split: if_splits prod.splits)

lemma set_deleteOne: "set (fst (deleteOne p xs)) \<subseteq> set xs"
  by (induction xs) (auto split: prod.splits)

lemma distinct_deleteOne:
  "distinct (map key xs) \<Longrightarrow> distinct (map key (fst (deleteOne p xs)))"
proof (induction xs)
  case Nil
  then show ?case by simp
next
  case (Cons x xs)
  have "key x \<notin> key ` set (fst (deleteOne p xs))"
    using Cons.prems set_deleteOne [of p xs] by auto
  with Cons show ?case
    by (auto split: prod.splits)
qed

lemma insertOne_fresh:
  "\<forall>x\<in>set xs. key x \<noteq> key d \<Longrightarrow> insertOne key d xs = Inr (xs @ [d])"
  by (auto simp: insertOne_def list_ex_iff)

lemma distinct_insertOne:
  assumes "insertOne key d xs = Inr ys" and "distinct (map key xs)"
  shows "distinct (map key ys)"
proof -
  from assms(1) have "\<forall>x\<in>set xs. key x \<noteq> key d" and "ys = xs @ [d]"
    by (auto simp: insertOne_def list_ex_iff split: if_splits)
  with assms(2) show ?thesis
    by (auto simp: image_iff)
qed


lemma filter_absent: "\<forall>x\<in>set xs. \<not> p x \<Longrightarrow> filter p xs = []"
  by (induction xs) auto

text \<open>With unique keys, the documents with a given key are the one \<open>findOne\<close> returns.\<close>

lemma filter_key_distinct:
  "distinct (map key ts) \<Longrightarrow>
   filter (\<lambda>t. key t = k) ts =
     (case findOne (\<lambda>t. key t = k) ts of None \<Rightarrow> [] | Some t \<Rightarrow> [t])"
proof (induction ts)
  case Nil
  then show ?case by (simp add: findOne_def)
next
  case (Cons x xs)
  show ?case
  proof (cases "key x = k")
    case True
    with Cons.prems have "\<forall>y\<in>set xs. \<not> key y = k"
      by (auto simp: image_iff)
    then have "filter (\<lambda>t. key t = k) xs = []"
      by (rule filter_absent)
    with True show ?thesis by (simp add: findOne_def)
  next
    case False
    with Cons show ?thesis by (simp add: findOne_def)
  qed
qed

lemma oid_set_reviewed: "oid (set_reviewed b) = oid b"
  by (simp add: set_reviewed_def)

lemma oid_inc_review: "oid (inc_review t) = oid t"
  by (simp add: inc_review_def)

lemma oid_set_role: "oid (set_role r u) = oid u"
  by (simp add: set_role_def)


text \<open>\<open>Number\<close> keeps a number and turns a word into \<open>NaN\<close>.\<close>

lemma ToNumber_letters:
  "s \<noteq> [] \<Longrightarrow> list_all isLetter s \<Longrightarrow> s \<noteq> ''Infinity''
   \<Longrightarrow> ToNumber (StringToNumber rt) (String s) = NaN"
  by (simp add: StringToNumber_def)

lemma ToNumber_abc: "ToNumber (StringToNumber rt) (String ''abc'') = NaN"
  by (simp add: StringToNumber_def isLetter_def)

lemma project_enriched: "project b t = enriched_spec b t"
  by (simp add: project_def enriched_spec_def)

section \<open>Unique identifiers are an invariant of the tutors collection\<close>

text \<open>
  The store keeps \<open>_id\<close> unique within a collection. The three handlers that write to
  \<open>tutors\<close> preserve this, so it may be assumed of every reachable store.
\<close>

lemma post_tutors_distinct:
  "distinct (map oid (tutorCollection d))
   \<Longrightarrow> distinct (map oid (tutorCollection (snd (post_tutors e d b))))"
  by (auto simp: post_tutors_def await_def Let_def split: sum.splits if_splits
      dest: distinct_insertOne)

lemma delete_tutors_id_distinct:
  "distinct (map oid (tutorCollection d))
   \<Longrightarrow> distinct (map oid (tutorCollection (snd (delete_tutors_id e d i))))"
  using distinct_deleteOne [of oid "tutorCollection d" "\<lambda>t. oid t = new_ObjectId i"]
  by (auto simp: delete_tutors_id_def await_def split: prod.splits)

lemma patch_bookings_reviewed_id_distinct:
  "distinct (map oid (tutorCollection d))
   \<Longrightarrow> distinct (map oid (tutorCollection (snd (patch_bookings_reviewed_id e d i))))"
proof -
  assume dist: "distinct (map oid (tutorCollection d))"
  have "distinct (map oid (fst (updateOne p inc_review (tutorCollection d))))" for p
    using map_key_updateOne [of oid inc_review p "tutorCollection d"] oid_inc_review dist
    by simp
  then have "\<And>p ts m n. updateOne p inc_review (tutorCollection d) = (ts, m, n)
      \<Longrightarrow> distinct (map oid ts)"
    by (metis fst_conv)
  with dist show ?thesis
    by (auto simp: patch_bookings_reviewed_id_def await_def Let_def
        split: option.splits prod.splits)
qed

section \<open>Evaluation of the example store\<close>

lemma ex_ids_valid:
  "isValid ex_tutor_id" "isValid ex_booking_id" "isValid ex_orphan_id"
  "isValid ex_user_id" "isValid ex_absent_id"
  by (simp_all add: isValid_def isHex_def ex_tutor_id_def ex_booking_id_def ex_orphan_id_def
        ex_user_id_def ex_absent_id_def)

lemma ex_oids:
  "new_ObjectId ex_tutor_id = ObjectId [100, 161, 178, 195, 212, 229, 246, 7, 24, 41, 58, 75]"
  "new_ObjectId ex_booking_id = ObjectId [80, 127, 31, 119, 188, 248, 108, 215, 153, 67, 144, 17]"
  "new_ObjectId ex_orphan_id = ObjectId [80, 127, 31, 119, 188, 248, 108, 215, 153, 67, 144, 18]"
  "new_ObjectId ex_user_id = ObjectId [95, 141, 13, 85, 181, 71, 100, 66, 27, 113, 86, 195]"
  "new_ObjectId ex_absent_id = ObjectId [0, 0, 0, 0, 0, 0, 0, 0, 0, 0, 0, 0]"
  by (simp_all add: new_ObjectId_def hexDigit_def ex_tutor_id_def ex_booking_id_def
        ex_orphan_id_def ex_user_id_def ex_absent_id_def)

lemma ex_find_booking:
  "findOne (\<lambda>b. oid b = new_ObjectId ex_booking_id) (bookingCollection ex_db) = Some ex_booking"
  by (simp add: findOne_def ex_db_def ex_booking_def)

lemma ex_find_orphan:
  "findOne (\<lambda>b. oid b = new_ObjectId ex_orphan_id) (bookingCollection ex_db) = Some ex_orphan"
  by (simp add: findOne_def ex_db_def ex_booking_def ex_orphan_def ex_oids)

lemma ex_find_tutor:
  "findOne (\<lambda>t. oid t = tutorId ex_booking) (tutorCollection ex_db) = Some ex_tutor"
  by (simp add: findOne_def ex_db_def ex_booking_def ex_tutor_def)

lemma ex_no_tutor_of_orphan:
  "findOne (\<lambda>t. oid t = tutorId ex_orphan) (tutorCollection ex_db) = None"
  by (simp add: findOne_def ex_db_def ex_orphan_def ex_tutor_def ex_oids)

lemma ex_find_user:
  "findOne (\<lambda>u. oid u = new_ObjectId ex_user_id) (userCollection ex_db) = Some ex_user"
  by (simp add: findOne_def ex_db_def ex_user_def)

lemma ex_not_reviewed: "\<not> reviewed ex_booking" "\<not> reviewed ex_orphan"
  by (simp_all add: ex_booking_def ex_orphan_def)

lemma ex_env_fails: "\<not> fails ex_env k"
  by (simp add: ex_env_def)

lemma ex_third_fails:
  "\<not> fails ex_env_third_fails 0" "\<not> fails ex_env_third_fails 1" "fails ex_env_third_fails 2"
  by (simp_all add: ex_env_third_fails_def ex_env_def)

lemma ex_collections:
  "tutorCollection ex_db = [ex_tutor]" "userCollection ex_db = [ex_user]"
  by (simp_all add: ex_db_def)

lemma ex_tutor_oid:
  "oid ex_tutor = new_ObjectId ex_tutor_id" "oid ex_tutor \<noteq> new_ObjectId ex_absent_id"
  "oid ex_tutor \<noteq> newId ex_env"
  by (simp_all add: ex_tutor_def ex_env_def ex_oids)

lemma ex_user_oid:
  "oid ex_user \<noteq> new_ObjectId ex_absent_id" "oid ex_user \<noteq> newId ex_env"
  "email ex_user \<noteq> b_email ex_userBody"
  by (simp_all add: ex_user_def ex_env_def ex_userBody_def ex_oids)

lemma ex_tutors_distinct: "distinct (map oid (tutorCollection ex_db))"
  by (simp add: ex_db_def)

lemma ex_fresh_tutor_id: "\<forall>t\<in>set (tutorCollection ex_db). oid t \<noteq> newId ex_env"
  by (simp add: ex_db_def ex_tutor_def ex_env_def ex_oids)



section \<open>Creating and fetching tutors\<close>

text \<open>
  C4, as amended. A \<open>POST /tutors\<close> request whose \<open>tutorName\<close> and \<open>language\<close> are present
  (truthy, which is what the handler tests with \<open>!x\<close>) and whose \<open>price\<close> is neither \<open>null\<close>
  nor \<open>undefined\<close> is answered 201 when the insertion succeeds (the storage call does not
  throw and the generated \<open>_id\<close> is new); the stored record is appended to the tutors and
  has \<open>review = 0\<close>, \<open>createdAt\<close> equal to the request's clock and the price
  \<open>Number(price)\<close>: the supplied price itself when that is a JSON number, and a number
  exactly when \<open>Number(price)\<close> is not \<open>NaN\<close>. A request in which one of the three is
  missing is answered 400 and the store is left as it was.
\<close>

theorem post_tutors_created_or_rejected:
  "(truthy (b_tutorName b) \<and> truthy (b_language b) \<and> \<not> eq_null (b_price b)
      \<and> \<not> fails e 0 \<and> (\<forall>t\<in>set (tutorCollection d). oid t \<noteq> newId e)
     \<longrightarrow> (\<exists>t. post_tutors e d b =
                (send 201 (Success_insertedId ''Tutor added'' (oid t)),
                 d\<lparr>tutorCollection := tutorCollection d @ [t]\<rparr>)
              \<and> review t = 0 \<and> createdAt t = now e
              \<and> tutorName t = b_tutorName b \<and> language t = b_language b
              \<and> price t = Number (ToNumber (StringToNumber (numericValue e)) (b_price b))
              \<and> (\<forall>n. b_price b = Number n \<longrightarrow> price t = Number n)
              \<and> is_numeric (price t)
                  = (ToNumber (StringToNumber (numericValue e)) (b_price b) \<noteq> NaN)))
   \<and> (\<not> truthy (b_tutorName b) \<or> \<not> truthy (b_language b) \<or> eq_null (b_price b)
     \<longrightarrow> post_tutors e d b = (send 400 (Failure_error ''Missing required fields''), d))"
proof (intro conjI impI)
  assume a: "truthy (b_tutorName b) \<and> truthy (b_language b) \<and> \<not> eq_null (b_price b)
      \<and> \<not> fails e 0 \<and> (\<forall>t\<in>set (tutorCollection d). oid t \<noteq> newId e)"
  define t where "t =
          \<lparr>oid = newId e, createdAt = now e,
           tutorName = b_tutorName b,
           language = b_language b,
           price = Number (ToNumber (StringToNumber (numericValue e)) (b_price b)),
           description = or_else (b_description b) (String []),
           tutorImage = or_else (b_image b) (String []),
           review = 0\<rparr>"
  have "insertOne oid t (tutorCollection d) = Inr (tutorCollection d @ [t])"
    using a by (intro insertOne_fresh) (simp add: t_def)
  with a have "post_tutors e d b =
                (send 201 (Success_insertedId ''Tutor added'' (oid t)),
                 d\<lparr>tutorCollection := tutorCollection d @ [t]\<rparr>)"
    by (simp add: post_tutors_def await_def t_def Let_def)
  moreover have "review t = 0 \<and> createdAt t = now e
              \<and> tutorName t = b_tutorName b \<and> language t = b_language b
              \<and> price t = Number (ToNumber (StringToNumber (numericValue e)) (b_price b))
              \<and> (\<forall>n. b_price b = Number n \<longrightarrow> price t = Number n)
              \<and> is_numeric (price t)
                  = (ToNumber (StringToNumber (numericValue e)) (b_price b) \<noteq> NaN)"
    by (simp add: t_def)
  ultimately show "\<exists>t. post_tutors e d b =
                (send 201 (Success_insertedId ''Tutor added'' (oid t)),
                 d\<lparr>tutorCollection := tutorCollection d @ [t]\<rparr>)
              \<and> review t = 0 \<and> createdAt t = now e
              \<and> tutorName t = b_tutorName b \<and> language t = b_language b
              \<and> price t = Number (ToNumber (StringToNumber (numericValue e)) (b_price b))
              \<and> (\<forall>n. b_price b = Number n \<longrightarrow> price t = Number n)
              \<and> is_numeric (price t)
                  = (ToNumber (StringToNumber (numericValue e)) (b_price b) \<noteq> NaN)"
    by blast
next
  assume "\<not> truthy (b_tutorName b) \<or> \<not> truthy (b_language b) \<or> eq_null (b_price b)"
  then show "post_tutors e d b = (send 400 (Failure_error ''Missing required fields''), d)"
    by (auto simp: post_tutors_def)
qed

theorem post_tutors_created_or_rejected_witness:
  "(truthy (b_tutorName ex_tutorBody) \<and> truthy (b_language ex_tutorBody)
      \<and> \<not> eq_null (b_price ex_tutorBody) \<and> \<not> fails ex_env 0
      \<and> tutorCollection ex_db = [ex_tutor] \<and> oid ex_tutor \<noteq> newId ex_env)
   \<and> b_price ex_tutorBody = Number (Finite 15)
   \<and> (\<exists>t. post_tutors ex_env ex_db ex_tutorBody =
            (send 201 (Success_insertedId ''Tutor added'' (oid t)),
             ex_db\<lparr>tutorCollection := tutorCollection ex_db @ [t]\<rparr>)
          \<and> review t = 0 \<and> createdAt t = now ex_env
          \<and> tutorName t = b_tutorName ex_tutorBody \<and> language t = b_language ex_tutorBody
          \<and> price t = Number (Finite 15) \<and> is_numeric (price t))
   \<and> eq_null (b_price ex_tutorBody_no_price)
   \<and> post_tutors ex_env ex_db ex_tutorBody_no_price
       = (send 400 (Failure_error ''Missing required fields''), ex_db)"
proof -
  have h1: "truthy (b_tutorName ex_tutorBody) \<and> truthy (b_language ex_tutorBody)
      \<and> \<not> eq_null (b_price ex_tutorBody) \<and> \<not> fails ex_env 0
      \<and> (\<forall>t\<in>set (tutorCollection ex_db). oid t \<noteq> newId ex_env)"
    using ex_env_fails ex_fresh_tutor_id by (simp add: ex_tutorBody_def)
  have p: "b_price ex_tutorBody = Number (Finite 15)"
    by (simp add: ex_tutorBody_def)
  have h2: "eq_null (b_price ex_tutorBody_no_price)"
    by (simp add: ex_tutorBody_no_price_def)
  from post_tutors_created_or_rejected [where b = ex_tutorBody and e = ex_env and d = ex_db] h1
  obtain t where t: "post_tutors ex_env ex_db ex_tutorBody =
            (send 201 (Success_insertedId ''Tutor added'' (oid t)),
             ex_db\<lparr>tutorCollection := tutorCollection ex_db @ [t]\<rparr>)"
      "review t = 0" "createdAt t = now ex_env"
      "tutorName t = b_tutorName ex_tutorBody" "language t = b_language ex_tutorBody"
      "\<forall>n. b_price ex_tutorBody = Number n \<longrightarrow> price t = Number n"
    by blast
  from t(6) p have "price t = Number (Finite 15)"
    by blast
  with t have c1: "\<exists>t. post_tutors ex_env ex_db ex_tutorBody =
            (send 201 (Success_insertedId ''Tutor added'' (oid t)),
             ex_db\<lparr>tutorCollection := tutorCollection ex_db @ [t]\<rparr>)
          \<and> review t = 0 \<and> createdAt t = now ex_env
          \<and> tutorName t = b_tutorName ex_tutorBody \<and> language t = b_language ex_tutorBody
          \<and> price t = Number (Finite 15) \<and> is_numeric (price t)"
    by (intro exI [of _ t]) simp
  from post_tutors_created_or_rejected
    [where b = ex_tutorBody_no_price and e = ex_env and d = ex_db] h2
  have c2: "post_tutors ex_env ex_db ex_tutorBody_no_price
       = (send 400 (Failure_error ''Missing required fields''), ex_db)"
    by blast
  from h1 h2 p c1 c2 ex_collections(1) ex_tutor_oid(3) show ?thesis by blast
qed

text \<open>
  The claim as stated fails on the request
  \<open>{tutorName: "Bo", language: "French", price: "abc"}\<close>, in which \<open>tutorName\<close> and
  \<open>language\<close> are present and \<open>price\<close> is not \<open>null\<close>: the handler answers 201 and the
  record it stores has the price \<open>NaN\<close>, which is no number. The handler coerces the price
  with \<open>Number(price)\<close> and never looks at the result.
\<close>

theorem post_tutors_stores_NaN_counterexample:
  "truthy (b_tutorName ex_tutorBody_abc) \<and> truthy (b_language ex_tutorBody_abc)
   \<and> \<not> eq_null (b_price ex_tutorBody_abc) \<and> \<not> fails ex_env 0
   \<and> post_tutors ex_env ex_db ex_tutorBody_abc =
       (send 201 (Success_insertedId ''Tutor added'' (newId ex_env)),
        ex_db\<lparr>tutorCollection := [ex_tutor,
           \<lparr>oid = newId ex_env, createdAt = now ex_env, tutorName = String ''Bo'',
            language = String ''French'', price = Number NaN, description = String [],
            tutorImage = String [], review = 0\<rparr>]\<rparr>)
   \<and> \<not> is_numeric (Number NaN)"
  using ex_fresh_tutor_id ex_env_fails [of 0] ToNumber_abc
  by (simp add: post_tutors_def await_def Let_def insertOne_def list_ex_iff or_else_def
      ex_tutorBody_def ex_tutorBody_abc_def ex_collections)

text \<open>
  C2. \<open>GET /tutors/:id\<close>: an id that is not a 24-character hexadecimal identifier (wrong
  length, or some character that is not a hex digit) is answered 400, whatever the store
  holds or does, so never 404. A valid id that no tutor carries is answered 404, and a valid
  id that a tutor carries is answered 200 with a stored record of that id (both when the
  lookup does not throw).
\<close>

theorem get_tutor_status:
  "(length i \<noteq> 24 \<or> (\<exists>c\<in>set i. \<not> isHex c)
      \<longrightarrow> get_tutors_id e d i = send 400 (Failure_error ''Invalid ID format''))
   \<and> (isValid i \<and> \<not> fails e 0 \<and> (\<forall>t\<in>set (tutorCollection d). oid t \<noteq> new_ObjectId i)
      \<longrightarrow> get_tutors_id e d i = send 404 (Failure_error ''Tutor not found''))
   \<and> (isValid i \<and> \<not> fails e 0 \<and> (\<exists>t\<in>set (tutorCollection d). oid t = new_ObjectId i)
      \<longrightarrow> (\<exists>t\<in>set (tutorCollection d). oid t = new_ObjectId i
             \<and> get_tutors_id e d i = send 200 (TutorDoc t)))"
proof (intro conjI impI)
  assume "length i \<noteq> 24 \<or> (\<exists>c\<in>set i. \<not> isHex c)"
  then have "\<not> isValid i"
    by (auto simp: isValid_def list_all_iff)
  then show "get_tutors_id e d i = send 400 (Failure_error ''Invalid ID format'')"
    by (simp add: get_tutors_id_def)
next
  assume a: "isValid i \<and> \<not> fails e 0
      \<and> (\<forall>t\<in>set (tutorCollection d). oid t \<noteq> new_ObjectId i)"
  then have "findOne (\<lambda>t. oid t = new_ObjectId i) (tutorCollection d) = None"
    by (simp add: findOne_None_iff)
  with a show "get_tutors_id e d i = send 404 (Failure_error ''Tutor not found'')"
    by (simp add: get_tutors_id_def await_def)
next
  assume a: "isValid i \<and> \<not> fails e 0
      \<and> (\<exists>t\<in>set (tutorCollection d). oid t = new_ObjectId i)"
  then obtain t where t: "findOne (\<lambda>t. oid t = new_ObjectId i) (tutorCollection d) = Some t"
    using findOne_Some_iff_ex [of "\<lambda>t. oid t = new_ObjectId i" "tutorCollection d"] by blast
  then have "t \<in> set (tutorCollection d)" and "oid t = new_ObjectId i"
    using findOne_Some_mem [OF t] by simp_all
  moreover have "get_tutors_id e d i = send 200 (TutorDoc t)"
    using a t by (simp add: get_tutors_id_def await_def)
  ultimately show "\<exists>t\<in>set (tutorCollection d). oid t = new_ObjectId i
                   \<and> get_tutors_id e d i = send 200 (TutorDoc t)"
    by blast
qed

theorem get_tutor_status_witness:
  "length ''64a1b2c3'' \<noteq> 24
   \<and> get_tutors_id ex_env ex_db ''64a1b2c3'' = send 400 (Failure_error ''Invalid ID format'')
   \<and> (\<exists>c\<in>set ''64a1b2c3d4e5f60718293a4g''. \<not> isHex c)
   \<and> get_tutors_id ex_env ex_db ''64a1b2c3d4e5f60718293a4g''
       = send 400 (Failure_error ''Invalid ID format'')
   \<and> (isValid ex_absent_id \<and> \<not> fails ex_env 0
       \<and> tutorCollection ex_db = [ex_tutor] \<and> oid ex_tutor \<noteq> new_ObjectId ex_absent_id)
   \<and> get_tutors_id ex_env ex_db ex_absent_id = send 404 (Failure_error ''Tutor not found'')
   \<and> (isValid ex_tutor_id \<and> oid ex_tutor = new_ObjectId ex_tutor_id)
   \<and> get_tutors_id ex_env ex_db ex_tutor_id = send 200 (TutorDoc ex_tutor)"
proof -
  have h1: "length ''64a1b2c3'' \<noteq> 24"
    by simp
  have h2: "\<exists>c\<in>set ''64a1b2c3d4e5f60718293a4g''. \<not> isHex c"
    by (simp add: isHex_def)
  have h3: "isValid ex_absent_id \<and> \<not> fails ex_env 0
       \<and> (\<forall>t\<in>set (tutorCollection ex_db). oid t \<noteq> new_ObjectId ex_absent_id)"
    using ex_ids_valid ex_env_fails by (simp add: ex_db_def ex_tutor_def ex_oids)
  have h4: "isValid ex_tutor_id \<and> \<not> fails ex_env 0
       \<and> (\<exists>t\<in>set (tutorCollection ex_db). oid t = new_ObjectId ex_tutor_id)"
    using ex_ids_valid ex_env_fails by (simp add: ex_db_def ex_tutor_def)
  from get_tutor_status [where i = "''64a1b2c3''" and e = ex_env and d = ex_db] h1
  have c1: "get_tutors_id ex_env ex_db ''64a1b2c3''
      = send 400 (Failure_error ''Invalid ID format'')"
    by blast
  from get_tutor_status [where i = "''64a1b2c3d4e5f60718293a4g''" and e = ex_env and d = ex_db] h2
  have c2: "get_tutors_id ex_env ex_db ''64a1b2c3d4e5f60718293a4g''
      = send 400 (Failure_error ''Invalid ID format'')"
    by blast
  from get_tutor_status [where i = ex_absent_id and e = ex_env and d = ex_db] h3
  have c3: "get_tutors_id ex_env ex_db ex_absent_id = send 404 (Failure_error ''Tutor not found'')"
    by blast
  from get_tutor_status [where i = ex_tutor_id and e = ex_env and d = ex_db] h4
  have "\<exists>t\<in>set (tutorCollection ex_db). oid t = new_ObjectId ex_tutor_id
          \<and> get_tutors_id ex_env ex_db ex_tutor_id = send 200 (TutorDoc t)"
    by blast
  then have c4: "get_tutors_id ex_env ex_db ex_tutor_id = send 200 (TutorDoc ex_tutor)"
    by (simp add: ex_db_def)
  from h1 h2 h3 h4 c1 c2 c3 c4 ex_collections(1) ex_tutor_oid(1,2) show ?thesis by blast
qed

section \<open>Deleting a tutor\<close>

text \<open>
  C6. \<open>DELETE /tutors/:id\<close> never answers 404. An invalid id is answered 400. For a valid
  id, when the storage call does not throw, the answer is 200 with \<open>deletedCount\<close> 1 if a
  tutor with that id was in the store, and 200 with \<open>deletedCount\<close> 0, the store
  unchanged, if none was.
\<close>

theorem delete_tutor_count:
  "status (fst (delete_tutors_id e d i)) \<noteq> 404
   \<and> (\<not> isValid i
      \<longrightarrow> delete_tutors_id e d i = (send 400 (Failure_error ''Invalid ID format''), d))
   \<and> (isValid i \<and> \<not> fails e 0 \<and> (\<exists>t\<in>set (tutorCollection d). oid t = new_ObjectId i)
      \<longrightarrow> fst (delete_tutors_id e d i) = send 200 (Success_deletedCount 1))
   \<and> (isValid i \<and> \<not> fails e 0 \<and> (\<forall>t\<in>set (tutorCollection d). oid t \<noteq> new_ObjectId i)
      \<longrightarrow> delete_tutors_id e d i = (send 200 (Success_deletedCount 0), d))"
proof (intro conjI impI)
  show "status (fst (delete_tutors_id e d i)) \<noteq> 404"
    by (simp add: delete_tutors_id_def await_def send_def split: prod.splits)
next
  assume "\<not> isValid i"
  then show "delete_tutors_id e d i = (send 400 (Failure_error ''Invalid ID format''), d)"
    by (simp add: delete_tutors_id_def)
next
  assume a: "isValid i \<and> \<not> fails e 0
      \<and> (\<exists>t\<in>set (tutorCollection d). oid t = new_ObjectId i)"
  then obtain t where "findOne (\<lambda>t. oid t = new_ObjectId i) (tutorCollection d) = Some t"
    using findOne_Some_iff_ex [of "\<lambda>t. oid t = new_ObjectId i" "tutorCollection d"] by blast
  then have "snd (deleteOne (\<lambda>t. oid t = new_ObjectId i) (tutorCollection d)) = 1"
    by (rule deleteOne_match)
  with a show "fst (delete_tutors_id e d i) = send 200 (Success_deletedCount 1)"
    by (auto simp: delete_tutors_id_def await_def split: prod.splits)
next
  assume a: "isValid i \<and> \<not> fails e 0
      \<and> (\<forall>t\<in>set (tutorCollection d). oid t \<noteq> new_ObjectId i)"
  then have "findOne (\<lambda>t. oid t = new_ObjectId i) (tutorCollection d) = None"
    by (simp add: findOne_None_iff)
  then have "deleteOne (\<lambda>t. oid t = new_ObjectId i) (tutorCollection d)
             = (tutorCollection d, 0)"
    by (rule deleteOne_no_match)
  with a show "delete_tutors_id e d i = (send 200 (Success_deletedCount 0), d)"
    by (simp add: delete_tutors_id_def await_def)
qed

theorem delete_tutor_count_witness:
  "\<not> isValid ''not-an-id''
   \<and> delete_tutors_id ex_env ex_db ''not-an-id''
       = (send 400 (Failure_error ''Invalid ID format''), ex_db)
   \<and> (isValid ex_tutor_id \<and> \<not> fails ex_env 0
       \<and> tutorCollection ex_db = [ex_tutor] \<and> oid ex_tutor = new_ObjectId ex_tutor_id)
   \<and> fst (delete_tutors_id ex_env ex_db ex_tutor_id) = send 200 (Success_deletedCount 1)
   \<and> (isValid ex_absent_id \<and> oid ex_tutor \<noteq> new_ObjectId ex_absent_id)
   \<and> delete_tutors_id ex_env ex_db ex_absent_id = (send 200 (Success_deletedCount 0), ex_db)"
proof -
  have h1: "\<not> isValid ''not-an-id''"
    by (simp add: isValid_def)
  have h2: "isValid ex_tutor_id \<and> \<not> fails ex_env 0
       \<and> (\<exists>t\<in>set (tutorCollection ex_db). oid t = new_ObjectId ex_tutor_id)"
    using ex_ids_valid ex_env_fails by (simp add: ex_db_def ex_tutor_def)
  have h3: "isValid ex_absent_id \<and> \<not> fails ex_env 0
       \<and> (\<forall>t\<in>set (tutorCollection ex_db). oid t \<noteq> new_ObjectId ex_absent_id)"
    using ex_ids_valid ex_env_fails by (simp add: ex_db_def ex_tutor_def ex_oids)
  from delete_tutor_count [where i = "''not-an-id''" and e = ex_env and d = ex_db] h1
  have c1: "delete_tutors_id ex_env ex_db ''not-an-id''
       = (send 400 (Failure_error ''Invalid ID format''), ex_db)"
    by blast
  from delete_tutor_count [where i = ex_tutor_id and e = ex_env and d = ex_db] h2
  have c2: "fst (delete_tutors_id ex_env ex_db ex_tutor_id) = send 200 (Success_deletedCount 1)"
    by blast
  from delete_tutor_count [where i = ex_absent_id and e = ex_env and d = ex_db] h3
  have c3: "delete_tutors_id ex_env ex_db ex_absent_id
      = (send 200 (Success_deletedCount 0), ex_db)"
    by blast
  from h1 h2 h3 c1 c2 c3 ex_collections(1) ex_tutor_oid(1,2) show ?thesis by blast
qed

text \<open>
  The older handler of the second source file differs exactly here: when nothing was
  deleted it answers 404.
\<close>

lemma delete_tutors_id_old_absent:
  assumes "isValid i" and "\<not> fails e 0"
    and "\<forall>t\<in>set (tutorCollection d). oid t \<noteq> new_ObjectId i"
  shows "delete_tutors_id_old e d i = (send 404 (Failure_message ''Tutor not found''), d)"
proof -
  have "findOne (\<lambda>t. oid t = new_ObjectId i) (tutorCollection d) = None"
    using assms(3) by (simp add: findOne_None_iff)
  then have "deleteOne (\<lambda>t. oid t = new_ObjectId i) (tutorCollection d)
             = (tutorCollection d, 0)"
    by (rule deleteOne_no_match)
  with assms show ?thesis
    by (simp add: delete_tutors_id_old_def await_def)
qed

text \<open>
  C7. Whatever the store holds and whatever the request is, \<open>DELETE /tutors/:id\<close> leaves
  the bookings collection exactly as it was: no booking is removed or changed, also not
  the bookings that reference the deleted tutor. This holds for invalid ids and for a
  failing storage call as well.
\<close>

theorem delete_tutor_keeps_bookings:
  "bookingCollection (snd (delete_tutors_id e d i)) = bookingCollection d"
  by (simp add: delete_tutors_id_def await_def split: prod.splits)

section \<open>The bookings of an email, joined with their tutors\<close>

lemma pipeline_unfolded:
  "project_stage (unwind_stage (lookup_stage ts bs)) =
   concat (map (\<lambda>b. map (project b) (filter (\<lambda>t. oid t = tutorId b) ts)) bs)"
  by (induction bs) (simp_all add: project_stage_def unwind_stage_def lookup_stage_def)

lemma aggregate_is_spec:
  assumes "distinct (map oid (tutorCollection d))"
  shows "aggregate em d = bookings_of_email_spec em d"
proof -
  have "map (project b) (filter (\<lambda>t. oid t = tutorId b) (tutorCollection d)) =
        (case findOne (\<lambda>t. oid t = tutorId b) (tutorCollection d) of
           None \<Rightarrow> [] | Some t \<Rightarrow> [enriched_spec b t])" for b
    using filter_key_distinct [OF assms, of "tutorId b"]
    by (simp add: project_enriched split: option.splits)
  then show ?thesis
    by (simp add: aggregate_def bookings_of_email_spec_def pipeline_unfolded match_stage_def)
qed

text \<open>Every record of the specified list comes from a booking of the email and the tutor
  that booking references.\<close>

lemma bookings_of_email_spec_mem:
  assumes "v \<in> set (bookings_of_email_spec em d)"
  shows "\<exists>b\<in>set (bookingCollection d). \<exists>t\<in>set (tutorCollection d).
           userEmail b = String em \<and> oid t = tutorId b \<and> v = enriched_spec b t"
proof -
  from assms obtain b where b: "b \<in> set (bookingCollection d)" "userEmail b = String em"
    and v: "v \<in> set (case findOne (\<lambda>t. oid t = tutorId b) (tutorCollection d) of
                        None \<Rightarrow> [] | Some t \<Rightarrow> [enriched_spec b t])"
    by (auto simp: bookings_of_email_spec_def)
  from v obtain t where t: "findOne (\<lambda>t. oid t = tutorId b) (tutorCollection d) = Some t"
    and "v = enriched_spec b t"
    by (cases "findOne (\<lambda>t. oid t = tutorId b) (tutorCollection d)") auto
  with findOne_Some_mem [OF t] b show ?thesis
    by blast
qed

text \<open>
  C5. In a store whose tutors have unique identifiers, \<open>GET /bookings/:email\<close> (when the
  aggregation does not throw) answers 200 with exactly the list the specification
  describes: the bookings whose \<open>userEmail\<close> is the email, in store order, each one
  enriched with its tutor, and none for a booking whose \<open>tutorId\<close> resolves to no tutor.
  Every returned record belongs to a booking of that email and a tutor of the store with
  the booking's \<open>tutorId\<close>, and carries that tutor's \<open>tutorName\<close>, \<open>language\<close>, \<open>price\<close>
  and \<open>image\<close>; when no tutor of the store lacks one of these fields, no returned record
  lacks one.
\<close>

theorem get_bookings_join:
  assumes "distinct (map oid (tutorCollection d))" and "\<not> fails e 0"
  shows "get_bookings_email e d em = send 200 (BookingDocs (bookings_of_email_spec em d))
       \<and> (\<forall>vs. get_bookings_email e d em = send 200 (BookingDocs vs) \<longrightarrow>
            (\<forall>v\<in>set vs. \<exists>b\<in>set (bookingCollection d). \<exists>t\<in>set (tutorCollection d).
               userEmail b = String em \<and> oid t = tutorId b
               \<and> v_id v = oid b \<and> v_tutorId v = tutorId b \<and> v_userEmail v = userEmail b
               \<and> v_bookedAt v = bookedAt b \<and> v_reviewed v = reviewed b
               \<and> v_tutorName v = tutorName t \<and> v_language v = language t
               \<and> v_price v = price t \<and> v_image v = tutorImage t)
          \<and> ((\<forall>t\<in>set (tutorCollection d). tutor_fields_present t)
               \<longrightarrow> (\<forall>v\<in>set vs. joined_fields_present v)))"
proof (intro conjI allI impI)
  show run: "get_bookings_email e d em = send 200 (BookingDocs (bookings_of_email_spec em d))"
    using assms by (simp add: get_bookings_email_def await_def aggregate_is_spec)
  fix vs
  assume "get_bookings_email e d em = send 200 (BookingDocs vs)"
  with run have vs: "vs = bookings_of_email_spec em d"
    by (simp add: send_def)
  show "\<forall>v\<in>set vs. \<exists>b\<in>set (bookingCollection d). \<exists>t\<in>set (tutorCollection d).
               userEmail b = String em \<and> oid t = tutorId b
               \<and> v_id v = oid b \<and> v_tutorId v = tutorId b \<and> v_userEmail v = userEmail b
               \<and> v_bookedAt v = bookedAt b \<and> v_reviewed v = reviewed b
               \<and> v_tutorName v = tutorName t \<and> v_language v = language t
               \<and> v_price v = price t \<and> v_image v = tutorImage t"
  proof
    fix v assume "v \<in> set vs"
    with vs obtain b t where "b \<in> set (bookingCollection d)" "t \<in> set (tutorCollection d)"
      "userEmail b = String em" "oid t = tutorId b" "v = enriched_spec b t"
      using bookings_of_email_spec_mem [of v em d] by blast
    then show "\<exists>b\<in>set (bookingCollection d). \<exists>t\<in>set (tutorCollection d).
               userEmail b = String em \<and> oid t = tutorId b
               \<and> v_id v = oid b \<and> v_tutorId v = tutorId b \<and> v_userEmail v = userEmail b
               \<and> v_bookedAt v = bookedAt b \<and> v_reviewed v = reviewed b
               \<and> v_tutorName v = tutorName t \<and> v_language v = language t
               \<and> v_price v = price t \<and> v_image v = tutorImage t"
      by (intro bexI [of _ b] bexI [of _ t]) (simp_all add: enriched_spec_def)
  qed
  assume present: "\<forall>t\<in>set (tutorCollection d). tutor_fields_present t"
  show "\<forall>v\<in>set vs. joined_fields_present v"
  proof
    fix v assume "v \<in> set vs"
    with vs obtain b t where "t \<in> set (tutorCollection d)" "v = enriched_spec b t"
      using bookings_of_email_spec_mem [of v em d] by blast
    with present show "joined_fields_present v"
      by (auto simp: enriched_spec_def tutor_fields_present_def joined_fields_present_def)
  qed
qed

text \<open>In the example store the booking without tutor is dropped and the other is
  enriched.\<close>

lemma ex_bookings_of_email:
  "bookings_of_email_spec ''li@example.org'' ex_db =
     [\<lparr>v_id = new_ObjectId ex_booking_id, v_tutorId = new_ObjectId ex_tutor_id,
       v_userEmail = String ''li@example.org'', v_bookedAt = String ''2025-03-01'',
       v_reviewed = False, v_tutorName = String ''Ana'', v_language = String ''Spanish'',
       v_price = Number (Finite 20), v_image = String []\<rparr>]"
  using ex_find_tutor ex_no_tutor_of_orphan
  by (simp add: bookings_of_email_spec_def)
     (simp add: ex_db_def ex_booking_def ex_orphan_def ex_tutor_def enriched_spec_def)

theorem get_bookings_join_witness:
  "distinct (map oid (tutorCollection ex_db)) \<and> \<not> fails ex_env 0
   \<and> tutorCollection ex_db = [ex_tutor] \<and> tutor_fields_present ex_tutor
   \<and> get_bookings_email ex_env ex_db ''li@example.org'' = send 200 (BookingDocs
       [\<lparr>v_id = new_ObjectId ex_booking_id, v_tutorId = new_ObjectId ex_tutor_id,
         v_userEmail = String ''li@example.org'', v_bookedAt = String ''2025-03-01'',
         v_reviewed = False, v_tutorName = String ''Ana'', v_language = String ''Spanish'',
         v_price = Number (Finite 20), v_image = String []\<rparr>])
   \<and> joined_fields_present
       \<lparr>v_id = new_ObjectId ex_booking_id, v_tutorId = new_ObjectId ex_tutor_id,
         v_userEmail = String ''li@example.org'', v_bookedAt = String ''2025-03-01'',
         v_reviewed = False, v_tutorName = String ''Ana'', v_language = String ''Spanish'',
         v_price = Number (Finite 20), v_image = String []\<rparr>"
proof -
  note run = get_bookings_join [OF ex_tutors_distinct ex_env_fails,
      where em = "''li@example.org''"]
  have present: "tutor_fields_present ex_tutor"
    by (simp add: tutor_fields_present_def ex_tutor_def)
  then have all_present: "\<forall>t\<in>set (tutorCollection ex_db). tutor_fields_present t"
    by (simp add: ex_collections)
  from run have answer: "get_bookings_email ex_env ex_db ''li@example.org''
      = send 200 (BookingDocs (bookings_of_email_spec ''li@example.org'' ex_db))"
    by blast
  with run all_present
  have "\<forall>v\<in>set (bookings_of_email_spec ''li@example.org'' ex_db). joined_fields_present v"
    by blast
  with answer present ex_tutors_distinct ex_env_fails [of 0] ex_collections(1) show ?thesis
    by (simp add: ex_bookings_of_email)
qed

text \<open>\<open>POST /tutors\<close> writes every joined field, so tutors that lack none stay so.\<close>

lemma post_tutors_fields_present:
  assumes "\<forall>t\<in>set (tutorCollection d). tutor_fields_present t"
  shows "\<forall>t\<in>set (tutorCollection (snd (post_tutors e d b))). tutor_fields_present t"
proof -
  have "x \<noteq> Undefined" if "truthy x" for x
    using that by (cases x) simp_all
  moreover have "or_else x (String []) \<noteq> Undefined" for x
    by (cases x) (simp_all add: or_else_def)
  ultimately show ?thesis
    using assms
    by (auto simp: post_tutors_def await_def Let_def insertOne_def tutor_fields_present_def
        split: sum.splits if_splits)
qed

section \<open>The review workflow\<close>

text \<open>What the handler does when all three storage calls succeed on an unreviewed booking,
  and when the booking is already reviewed.\<close>

lemma review_run:
  assumes "isValid i"
    and "findOne (\<lambda>b. oid b = new_ObjectId i) (bookingCollection d) = Some b"
    and "\<not> reviewed b"
    and "\<not> fails e 0" and "\<not> fails e 1" and "\<not> fails e 2"
  shows "patch_bookings_reviewed_id e d i =
      (send 200 (Success_message ''Booking reviewed & tutor rating updated''),
       d\<lparr>bookingCollection :=
            fst (updateOne (\<lambda>b. oid b = new_ObjectId i) set_reviewed (bookingCollection d)),
          tutorCollection :=
            fst (updateOne (\<lambda>t. oid t = tutorId b) inc_review (tutorCollection d))\<rparr>)"
  using assms
  by (simp add: patch_bookings_reviewed_id_def await_def split: prod.splits)

lemma review_rejected:
  assumes "isValid i"
    and "findOne (\<lambda>b. oid b = new_ObjectId i) (bookingCollection d) = Some b"
    and "reviewed b"
    and "\<not> fails e 0"
  shows "patch_bookings_reviewed_id e d i = (send 400 (Failure_message ''Already reviewed''), d)"
  using assms
  by (simp add: patch_bookings_reviewed_id_def await_def)

lemma booking_after_review:
  assumes "findOne (\<lambda>b. oid b = new_ObjectId i) (bookingCollection d) = Some b"
  shows "findOne (\<lambda>b. oid b = new_ObjectId i)
           (fst (updateOne (\<lambda>b. oid b = new_ObjectId i) set_reviewed (bookingCollection d)))
         = Some (set_reviewed b)"
  using findOne_updateOne [of oid set_reviewed "new_ObjectId i" "new_ObjectId i"
      "bookingCollection d"] oid_set_reviewed assms
  by simp

lemma tutor_after_review:
  "findOne (\<lambda>t. oid t = k) (fst (updateOne (\<lambda>t. oid t = k) inc_review ts))
   = map_option inc_review (findOne (\<lambda>t. oid t = k) ts)"
  using findOne_updateOne [of oid inc_review k k ts] oid_inc_review
  by simp

text \<open>
  C1. Take a booking of the store that is not reviewed, addressed by a valid id, and let
  the storage calls succeed. The first \<open>PATCH /bookings/reviewed/:id\<close> answers 200, the
  booking is then reviewed, and the tutor it references has its \<open>review\<close> counter
  increased by exactly 1 (a lookup of the referenced tutor returns the former record with
  \<open>review + 1\<close>). A second request on the same booking answers 400 and leaves the whole
  store, the booking's flag and the tutor's counter included, unchanged.
\<close>

theorem review_once_then_rejected:
  assumes "isValid i"
    and "findOne (\<lambda>b. oid b = new_ObjectId i) (bookingCollection d) = Some b"
    and "\<not> reviewed b"
    and "\<not> fails e1 0" and "\<not> fails e1 1" and "\<not> fails e1 2"
    and "\<not> fails e2 0"
    and "patch_bookings_reviewed_id e1 d i = (r1, d1)"
    and "patch_bookings_reviewed_id e2 d1 i = (r2, d2)"
  shows "status r1 = 200
       \<and> findOne (\<lambda>b. oid b = new_ObjectId i) (bookingCollection d1)
           = Some (b\<lparr>reviewed := True\<rparr>)
       \<and> findOne (\<lambda>t. oid t = tutorId b) (tutorCollection d1)
           = map_option (\<lambda>t. t\<lparr>review := review t + 1\<rparr>)
               (findOne (\<lambda>t. oid t = tutorId b) (tutorCollection d))
       \<and> status r2 = 400
       \<and> d2 = d1"
proof -
  from review_run [OF assms(1-6)] assms(8)
  have r1: "r1 = send 200 (Success_message ''Booking reviewed & tutor rating updated'')"
    and d1: "d1 = d\<lparr>bookingCollection :=
            fst (updateOne (\<lambda>b. oid b = new_ObjectId i) set_reviewed (bookingCollection d)),
          tutorCollection :=
            fst (updateOne (\<lambda>t. oid t = tutorId b) inc_review (tutorCollection d))\<rparr>"
    by simp_all
  have b1: "findOne (\<lambda>b. oid b = new_ObjectId i) (bookingCollection d1) = Some (set_reviewed b)"
    using booking_after_review [OF assms(2)] d1 by simp
  have t1: "findOne (\<lambda>t. oid t = tutorId b) (tutorCollection d1)
            = map_option inc_review (findOne (\<lambda>t. oid t = tutorId b) (tutorCollection d))"
    using tutor_after_review [of "tutorId b" "tutorCollection d"] d1 by simp
  have inc: "inc_review = (\<lambda>t. t\<lparr>review := review t + 1\<rparr>)"
    by (rule ext) (simp add: inc_review_def)
  have "reviewed (set_reviewed b)"
    by (simp add: set_reviewed_def)
  from review_rejected [OF assms(1) b1 this assms(7)] assms(9)
  have "r2 = send 400 (Failure_message ''Already reviewed'')" and "d2 = d1"
    by simp_all
  with r1 b1 t1 inc show ?thesis
    by (simp add: send_def set_reviewed_def)
qed

theorem review_once_then_rejected_witness:
  "isValid ex_booking_id
   \<and> findOne (\<lambda>b. oid b = new_ObjectId ex_booking_id) (bookingCollection ex_db) = Some ex_booking
   \<and> \<not> reviewed ex_booking
   \<and> \<not> fails ex_env 0 \<and> \<not> fails ex_env 1 \<and> \<not> fails ex_env 2
   \<and> status (fst (patch_bookings_reviewed_id ex_env ex_db ex_booking_id)) = 200
   \<and> findOne (\<lambda>b. oid b = new_ObjectId ex_booking_id)
        (bookingCollection (snd (patch_bookings_reviewed_id ex_env ex_db ex_booking_id)))
       = Some (ex_booking\<lparr>reviewed := True\<rparr>)
   \<and> findOne (\<lambda>t. oid t = tutorId ex_booking)
        (tutorCollection (snd (patch_bookings_reviewed_id ex_env ex_db ex_booking_id)))
       = Some (ex_tutor\<lparr>review := 5\<rparr>)
   \<and> status (fst (patch_bookings_reviewed_id ex_env
        (snd (patch_bookings_reviewed_id ex_env ex_db ex_booking_id)) ex_booking_id)) = 400
   \<and> snd (patch_bookings_reviewed_id ex_env
        (snd (patch_bookings_reviewed_id ex_env ex_db ex_booking_id)) ex_booking_id)
       = snd (patch_bookings_reviewed_id ex_env ex_db ex_booking_id)"
proof -
  have run1: "patch_bookings_reviewed_id ex_env ex_db ex_booking_id =
      (fst (patch_bookings_reviewed_id ex_env ex_db ex_booking_id),
       snd (patch_bookings_reviewed_id ex_env ex_db ex_booking_id))"
    by simp
  have run2: "patch_bookings_reviewed_id ex_env
        (snd (patch_bookings_reviewed_id ex_env ex_db ex_booking_id)) ex_booking_id =
      (fst (patch_bookings_reviewed_id ex_env
         (snd (patch_bookings_reviewed_id ex_env ex_db ex_booking_id)) ex_booking_id),
       snd (patch_bookings_reviewed_id ex_env
         (snd (patch_bookings_reviewed_id ex_env ex_db ex_booking_id)) ex_booking_id))"
    by simp
  have five: "ex_tutor\<lparr>review := review ex_tutor + 1\<rparr> = ex_tutor\<lparr>review := 5\<rparr>"
    by (simp add: ex_tutor_def)
  from review_once_then_rejected [OF ex_ids_valid(2) ex_find_booking ex_not_reviewed(1)
      ex_env_fails ex_env_fails ex_env_fails ex_env_fails run1 run2]
  show ?thesis
    using ex_ids_valid(2) ex_find_booking ex_not_reviewed(1) ex_env_fails ex_find_tutor five
    by simp
qed

text \<open>
  C8. When the lookup and the first write (\<open>reviewed := true\<close> on the booking) succeed
  and the second write (the increment of the tutor's counter) throws, the handler answers
  500, the booking stays reviewed, and the tutors collection, so also the tutor's
  counter, is unchanged: the first write is not rolled back.
\<close>

theorem review_second_write_fails:
  assumes "isValid i"
    and "findOne (\<lambda>b. oid b = new_ObjectId i) (bookingCollection d) = Some b"
    and "\<not> reviewed b"
    and "\<not> fails e 0" and "\<not> fails e 1" and "fails e 2"
    and "patch_bookings_reviewed_id e d i = (r, d')"
  shows "status r = 500
       \<and> findOne (\<lambda>b. oid b = new_ObjectId i) (bookingCollection d')
           = Some (b\<lparr>reviewed := True\<rparr>)
       \<and> tutorCollection d' = tutorCollection d"
proof -
  obtain bs m n where
    u: "updateOne (\<lambda>b. oid b = new_ObjectId i) set_reviewed (bookingCollection d) = (bs, m, n)"
    by (metis prod_cases3)
  have "findOne (\<lambda>b. oid b = new_ObjectId i) bs = Some (set_reviewed b)"
    using booking_after_review [OF assms(2)] u by simp
  moreover have "r = send 500 (Failure_error ''Failed to update review'')"
    and "d' = d\<lparr>bookingCollection := bs\<rparr>"
    using assms u by (simp_all add: patch_bookings_reviewed_id_def await_def)
  ultimately show ?thesis
    by (simp add: send_def set_reviewed_def)
qed

theorem review_second_write_fails_witness:
  "isValid ex_booking_id
   \<and> findOne (\<lambda>b. oid b = new_ObjectId ex_booking_id) (bookingCollection ex_db) = Some ex_booking
   \<and> \<not> reviewed ex_booking
   \<and> \<not> fails ex_env_third_fails 0 \<and> \<not> fails ex_env_third_fails 1 \<and> fails ex_env_third_fails 2
   \<and> status (fst (patch_bookings_reviewed_id ex_env_third_fails ex_db ex_booking_id)) = 500
   \<and> findOne (\<lambda>b. oid b = new_ObjectId ex_booking_id)
        (bookingCollection (snd (patch_bookings_reviewed_id ex_env_third_fails ex_db ex_booking_id)))
       = Some (ex_booking\<lparr>reviewed := True\<rparr>)
   \<and> tutorCollection (snd (patch_bookings_reviewed_id ex_env_third_fails ex_db ex_booking_id))
       = tutorCollection ex_db"
proof -
  have run: "patch_bookings_reviewed_id ex_env_third_fails ex_db ex_booking_id =
      (fst (patch_bookings_reviewed_id ex_env_third_fails ex_db ex_booking_id),
       snd (patch_bookings_reviewed_id ex_env_third_fails ex_db ex_booking_id))"
    by simp
  from review_second_write_fails [OF ex_ids_valid(2) ex_find_booking ex_not_reviewed(1)
      ex_third_fails run]
  show ?thesis
    using ex_ids_valid(2) ex_find_booking ex_not_reviewed(1) ex_third_fails by simp
qed

text \<open>
  C9. For an unreviewed booking, addressed by a valid id, whose \<open>tutorId\<close> is the id of no
  tutor in the store, the handler (all storage calls succeeding) still answers 200 with
  the message of success, the booking becomes reviewed, and the tutors collection is
  unchanged: the dangling reference is not reported.
\<close>

theorem review_dangling_tutor:
  assumes "isValid i"
    and "findOne (\<lambda>b. oid b = new_ObjectId i) (bookingCollection d) = Some b"
    and "\<not> reviewed b"
    and "findOne (\<lambda>t. oid t = tutorId b) (tutorCollection d) = None"
    and "\<not> fails e 0" and "\<not> fails e 1" and "\<not> fails e 2"
    and "patch_bookings_reviewed_id e d i = (r, d')"
  shows "r = send 200 (Success_message ''Booking reviewed & tutor rating updated'')
       \<and> findOne (\<lambda>b. oid b = new_ObjectId i) (bookingCollection d')
           = Some (b\<lparr>reviewed := True\<rparr>)
       \<and> tutorCollection d' = tutorCollection d"
proof -
  have t: "updateOne (\<lambda>t. oid t = tutorId b) inc_review (tutorCollection d)
           = (tutorCollection d, 0, 0)"
    using assms(4) by (rule updateOne_no_match)
  from review_run [OF assms(1,2,3,5,6,7)] assms(8) t booking_after_review [OF assms(2)]
  show ?thesis
    by (auto simp: set_reviewed_def)
qed

theorem review_dangling_tutor_witness:
  "isValid ex_orphan_id
   \<and> findOne (\<lambda>b. oid b = new_ObjectId ex_orphan_id) (bookingCollection ex_db) = Some ex_orphan
   \<and> \<not> reviewed ex_orphan
   \<and> findOne (\<lambda>t. oid t = tutorId ex_orphan) (tutorCollection ex_db) = None
   \<and> \<not> fails ex_env 0 \<and> \<not> fails ex_env 1 \<and> \<not> fails ex_env 2
   \<and> fst (patch_bookings_reviewed_id ex_env ex_db ex_orphan_id)
       = send 200 (Success_message ''Booking reviewed & tutor rating updated'')
   \<and> findOne (\<lambda>b. oid b = new_ObjectId ex_orphan_id)
        (bookingCollection (snd (patch_bookings_reviewed_id ex_env ex_db ex_orphan_id)))
       = Some (ex_orphan\<lparr>reviewed := True\<rparr>)
   \<and> tutorCollection (snd (patch_bookings_reviewed_id ex_env ex_db ex_orphan_id))
       = tutorCollection ex_db"
proof -
  have run: "patch_bookings_reviewed_id ex_env ex_db ex_orphan_id =
      (fst (patch_bookings_reviewed_id ex_env ex_db ex_orphan_id),
       snd (patch_bookings_reviewed_id ex_env ex_db ex_orphan_id))"
    by simp
  from review_dangling_tutor [OF ex_ids_valid(3) ex_find_orphan ex_not_reviewed(2)
      ex_no_tutor_of_orphan ex_env_fails ex_env_fails ex_env_fails run]
  show ?thesis
    using ex_ids_valid(3) ex_find_orphan ex_not_reviewed(2) ex_no_tutor_of_orphan ex_env_fails
    by simp
qed

section \<open>Users\<close>







text \<open>A role that is absent (falsy) is refused with 400, and a truthy role that is not a
  string is answered 500.\<close>

lemma patch_users_id_role_missing:
  assumes "isValid i" and "\<not> truthy rl"
  shows "patch_users_id e d i rl = (send 400 (Failure_error ''Role is required''), d)"
  using assms by (simp add: patch_users_id_def)

lemma patch_users_id_role_not_string:
  assumes "isValid i" and "truthy rl" and "\<forall>s. rl \<noteq> String s"
  shows "patch_users_id e d i rl = (send 500 (Failure_error ''Failed to update role''), d)"
  using assms by (cases rl) (simp_all add: patch_users_id_def)

text \<open>
  C10, as amended. \<open>PATCH /users/:id\<close> never answers 404, whatever the request. With a
  valid id and a role that is a non-empty string, the storage call succeeding, it answers
  200 with a \<open>modifiedCount\<close>; when no user has that id the count is 0 and the store is
  unchanged; when a user has that id, the record found under the id afterwards is the
  former one with the role replaced by the supplied role lowercased (by \<open>toLowerCase\<close>,
  for every string).
\<close>

theorem patch_user_role:
  "status (fst (patch_users_id e d i rl)) \<noteq> 404
   \<and> (isValid i \<and> rl = String s \<and> s \<noteq> [] \<and> \<not> fails e 0
      \<longrightarrow> (\<exists>n. fst (patch_users_id e d i rl) = send 200 (Success_modifiedCount n))
        \<and> ((\<forall>u\<in>set (userCollection d). oid u \<noteq> new_ObjectId i)
            \<longrightarrow> patch_users_id e d i rl = (send 200 (Success_modifiedCount 0), d))
        \<and> (\<forall>u. findOne (\<lambda>u. oid u = new_ObjectId i) (userCollection d) = Some u
            \<longrightarrow> findOne (\<lambda>u. oid u = new_ObjectId i)
                    (userCollection (snd (patch_users_id e d i rl)))
                  = Some (u\<lparr>role := toLowerCase (lowerUnicode e) s\<rparr>)))"
proof (intro conjI impI)
  show "status (fst (patch_users_id e d i rl)) \<noteq> 404"
    by (simp add: patch_users_id_def await_def send_def split: sum.splits prod.splits)
next
  assume a: "isValid i \<and> rl = String s \<and> s \<noteq> [] \<and> \<not> fails e 0"
  obtain us m n where
    u: "updateOne (\<lambda>u. oid u = new_ObjectId i) (set_role (toLowerCase (lowerUnicode e) s))
          (userCollection d) = (us, m, n)"
    by (metis prod_cases3)
  have run: "patch_users_id e d i rl
             = (send 200 (Success_modifiedCount n), d\<lparr>userCollection := us\<rparr>)"
    using a u by (simp add: patch_users_id_def await_def)
  then show "\<exists>n. fst (patch_users_id e d i rl) = send 200 (Success_modifiedCount n)"
    by (metis fst_conv)
  show "patch_users_id e d i rl = (send 200 (Success_modifiedCount 0), d)"
    if "\<forall>u\<in>set (userCollection d). oid u \<noteq> new_ObjectId i"
  proof -
    have "findOne (\<lambda>u. oid u = new_ObjectId i) (userCollection d) = None"
      using that by (simp add: findOne_None_iff)
    from updateOne_no_match [OF this, of "set_role (toLowerCase (lowerUnicode e) s)"] u run
    show ?thesis by simp
  qed
  show "\<forall>x. findOne (\<lambda>u. oid u = new_ObjectId i) (userCollection d) = Some x
            \<longrightarrow> findOne (\<lambda>u. oid u = new_ObjectId i)
                    (userCollection (snd (patch_users_id e d i rl)))
                  = Some (x\<lparr>role := toLowerCase (lowerUnicode e) s\<rparr>)"
    using findOne_updateOne [of oid "set_role (toLowerCase (lowerUnicode e) s)"
        "new_ObjectId i" "new_ObjectId i" "userCollection d"] oid_set_role u run
    by (simp add: set_role_def)
qed

theorem patch_user_role_witness:
  "(isValid ex_absent_id \<and> ''ADMIN'' \<noteq> [] \<and> \<not> fails ex_env 0)
   \<and> userCollection ex_db = [ex_user] \<and> oid ex_user \<noteq> new_ObjectId ex_absent_id
   \<and> patch_users_id ex_env ex_db ex_absent_id (String ''ADMIN'')
       = (send 200 (Success_modifiedCount 0), ex_db)
   \<and> isValid ex_user_id
   \<and> findOne (\<lambda>u. oid u = new_ObjectId ex_user_id) (userCollection ex_db) = Some ex_user
   \<and> findOne (\<lambda>u. oid u = new_ObjectId ex_user_id)
        (userCollection (snd (patch_users_id ex_env ex_db ex_user_id (String ''ADMIN''))))
       = Some (ex_user\<lparr>role := ''admin''\<rparr>)
   \<and> status (fst (patch_users_id ex_env ex_db ex_user_id (String ''ADMIN''))) = 200"
proof -
  have h1: "isValid ex_absent_id \<and> String ''ADMIN'' = String ''ADMIN'' \<and> ''ADMIN'' \<noteq> []
      \<and> \<not> fails ex_env 0"
    using ex_ids_valid ex_env_fails by simp
  have h2: "isValid ex_user_id \<and> String ''ADMIN'' = String ''ADMIN'' \<and> ''ADMIN'' \<noteq> []
      \<and> \<not> fails ex_env 0"
    using ex_ids_valid ex_env_fails by simp
  have absent: "\<forall>u\<in>set (userCollection ex_db). oid u \<noteq> new_ObjectId ex_absent_id"
    by (simp add: ex_db_def ex_user_def ex_oids)
  have lower: "toLowerCase (lowerUnicode ex_env) ''ADMIN'' = ''admin''"
    by (simp add: toLowerCase_def is_ascii_def lower_char_def)
  from patch_user_role [where i = ex_absent_id and rl = "String ''ADMIN''" and s = "''ADMIN''"
      and e = ex_env and d = ex_db] h1 absent
  have c1: "patch_users_id ex_env ex_db ex_absent_id (String ''ADMIN'')
       = (send 200 (Success_modifiedCount 0), ex_db)"
    by blast
  from patch_user_role [where i = ex_user_id and rl = "String ''ADMIN''" and s = "''ADMIN''"
      and e = ex_env and d = ex_db] h2 ex_find_user
  have c2: "findOne (\<lambda>u. oid u = new_ObjectId ex_user_id)
        (userCollection (snd (patch_users_id ex_env ex_db ex_user_id (String ''ADMIN''))))
       = Some (ex_user\<lparr>role := toLowerCase (lowerUnicode ex_env) ''ADMIN''\<rparr>)"
    and c3: "\<exists>n. fst (patch_users_id ex_env ex_db ex_user_id (String ''ADMIN''))
       = send 200 (Success_modifiedCount n)"
    by blast+
  from c3 have c4: "status (fst (patch_users_id ex_env ex_db ex_user_id (String ''ADMIN''))) = 200"
    by (auto simp: send_def)
  from h1 h2 c1 c2 c4 lower ex_find_user ex_collections(2) ex_user_oid(1) show ?thesis
    by simp
qed

text \<open>
  The claim as stated fails on the request with the body \<open>{role: true}\<close> and the id of the
  example user: the id is valid, the role is present, a user has the id, and the answer is
  500, not 200, with the store unchanged.
\<close>

theorem patch_role_true_counterexample:
  "isValid ex_user_id \<and> truthy (Boolean True)
   \<and> findOne (\<lambda>u. oid u = new_ObjectId ex_user_id) (userCollection ex_db) = Some ex_user
   \<and> \<not> fails ex_env 0
   \<and> patch_users_id ex_env ex_db ex_user_id (Boolean True)
       = (send 500 (Failure_error ''Failed to update role''), ex_db)
   \<and> status (fst (patch_users_id ex_env ex_db ex_user_id (Boolean True))) \<noteq> 200"
proof -
  have run: "patch_users_id ex_env ex_db ex_user_id (Boolean True)
       = (send 500 (Failure_error ''Failed to update role''), ex_db)"
    using patch_users_id_role_not_string [OF ex_ids_valid(4), of "Boolean True"] by simp
  then have "status (fst (patch_users_id ex_env ex_db ex_user_id (Boolean True))) \<noteq> 200"
    by (simp add: send_def)
  with run ex_ids_valid(4) ex_find_user ex_env_fails [of 0] show ?thesis
    by simp
qed

end
